theory Spec2Isabelle
  imports Main
begin

section \<open>Values, actions and replication events\<close>

text \<open>
  The values the two services compare with \<^verbatim>\<open>===\<close> are JSON primitives. A key that is
  absent from an object reads as \<^verbatim>\<open>undefined\<close>, which is \<open>None\<close> here; on
  primitives \<^verbatim>\<open>===\<close> is equality. Numbers are integers in this model (JSON has no NaN,
  the only number that differs from itself).
\<close>

datatype prim = Null | Bool bool | Num int | Str string

text \<open>
  A drawing content object, as the transport hands it to \<^verbatim>\<open>handleEventsAndData\<close> and as
  the board stores it. Field \<open>c_k\<close> is the source's key \<^verbatim>\<open>"k"\<close>, absent when \<open>None\<close>;
  \<open>c_rest\<close> holds the keys the services never read. Nothing checks a content before
  it is stored, so every key may be absent. The payload \<^verbatim>\<open>d\<close> is an array when it is
  present, the board id a string.
\<close>

record action =
  c_t :: "prim option"
  c_wid :: "string option"
  c_username :: "prim option"
  c_drawId :: "prim option"
  c_d :: "prim list option"
  c_rest :: "(string \<times> prim) list"

text \<open>The event object of \<^verbatim>\<open>publishEvent\<close> and \<^verbatim>\<open>handleRemoteEvent\<close>.\<close>

record message =
  m_type :: "prim option"
  m_wid :: "string option"
  m_tool :: "prim option"
  m_data :: "action list option"
  m_content :: "action option"
  m_nodeId :: "prim option"
  m_timestamp :: "nat option"

text \<open>
  A board id is used as a property key and inside string concatenation; both turn
  \<^verbatim>\<open>undefined\<close> into the text \<^verbatim>\<open>"undefined"\<close>. In a condition, \<^verbatim>\<open>undefined\<close> and the
  empty string are falsy.
\<close>

definition to_key :: "string option \<Rightarrow> string" where
  "to_key wid = (case wid of None \<Rightarrow> ''undefined'' | Some w \<Rightarrow> w)"

definition truthy :: "string option \<Rightarrow> bool" where
  "truthy wid = (case wid of None \<Rightarrow> False | Some w \<Rightarrow> w \<noteq> [])"


section \<open>RedisAdapter\<close>

text \<open>
  The adapter object holds the readiness flag \<open>isConnected\<close> and the map \<open>handlers\<close>.
  Its two clients (publisher and subscriber) and the server behind them are the
  remaining fields: the keys holding strings, with their time to live, and the keys
  holding lists (a key holds one or the other; a key that holds no list reads as the
  empty list, as Redis has it), the messages published so far, the listeners the
  subscriber client holds, and the calls made to handlers.

  The client library is not part of the repository. Its subscriber is taken as
  node-redis 4 documents it: \<^verbatim>\<open>subscribe(channel, listener)\<close> adds the listener to those
  of the channel, and an incoming message is given to each of them in turn.

  A client command may be rejected (connection lost, server error); the adapter
  catches that. \<open>faults\<close> is the schedule of the environment: each client command takes
  the next entry, \<open>True\<close> meaning that the command throws; when the schedule is
  exhausted every command succeeds.

  Handlers are opaque functions: a call to one is recorded in \<open>invoked\<close>. Every stored
  item is the JSON text of an action, and values go through \<^verbatim>\<open>JSON.stringify\<close> and
  \<^verbatim>\<open>JSON.parse\<close> unchanged (an absent key stays absent). Each operation runs to its end
  without another one interleaved at its \<^verbatim>\<open>await\<close> points.
\<close>

datatype handler = Handler nat

record redis_adapter =
  isConnected :: bool
  handlers :: "string \<rightharpoonup> handler"
  string_store :: "string \<rightharpoonup> prim \<times> nat option"
  list_store :: "string \<Rightarrow> action list"
  published :: "(string \<times> message) list"
  listeners :: "(string \<times> handler) list"
  invoked :: "(handler \<times> message) list"
  faults :: "bool list"

text \<open>One client command: \<open>Inl\<close> when it throws, \<open>Inr\<close> with its effect otherwise.\<close>

definition command ::
  "('a redis_adapter_scheme \<Rightarrow> 'a redis_adapter_scheme) \<Rightarrow>
   'a redis_adapter_scheme \<Rightarrow> 'a redis_adapter_scheme + 'a redis_adapter_scheme" where
  "command effect a =
     (case faults a of
        [] \<Rightarrow> Inr (effect a)
      | f # fs \<Rightarrow> if f then Inl (a\<lparr>faults := fs\<rparr>) else Inr (effect (a\<lparr>faults := fs\<rparr>)))"

definition client_publish ::
  "string \<Rightarrow> message \<Rightarrow> 'a redis_adapter_scheme \<Rightarrow> 'a redis_adapter_scheme + 'a redis_adapter_scheme" where
  "client_publish channel msg = command (\<lambda>a. a\<lparr>published := published a @ [(channel, msg)]\<rparr>)"

definition client_subscribe ::
  "string \<Rightarrow> handler \<Rightarrow> 'a redis_adapter_scheme \<Rightarrow> 'a redis_adapter_scheme + 'a redis_adapter_scheme" where
  "client_subscribe channel handler = command (\<lambda>a. a\<lparr>listeners := listeners a @ [(channel, handler)]\<rparr>)"

definition client_set ::
  "string \<Rightarrow> prim \<Rightarrow> nat option \<Rightarrow> 'a redis_adapter_scheme \<Rightarrow> 'a redis_adapter_scheme + 'a redis_adapter_scheme" where
  "client_set key v ttl = command (\<lambda>a. a\<lparr>string_store := (string_store a)(key \<mapsto> (v, ttl)), list_store := (list_store a)(key := [])\<rparr>)"

definition client_del ::
  "string \<Rightarrow> 'a redis_adapter_scheme \<Rightarrow> 'a redis_adapter_scheme + 'a redis_adapter_scheme" where
  "client_del key = command (\<lambda>a. a\<lparr>string_store := (string_store a)(key := None), list_store := (list_store a)(key := [])\<rparr>)"

text \<open>\<^verbatim>\<open>rPush\<close> on a key that holds a string is refused by the server (wrong type).\<close>

definition client_rPush ::
  "string \<Rightarrow> action list \<Rightarrow> 'a redis_adapter_scheme \<Rightarrow> 'a redis_adapter_scheme + 'a redis_adapter_scheme" where
  "client_rPush key items a =
     (case string_store a key of
        None \<Rightarrow> command (\<lambda>a. a\<lparr>list_store := (list_store a)(key := list_store a key @ items)\<rparr>) a
      | Some v \<Rightarrow> (case command (\<lambda>a. a) a of Inl a' \<Rightarrow> Inl a' | Inr a' \<Rightarrow> Inl a'))"

text \<open>A command that leaves the server as it is (\<^verbatim>\<open>get\<close>, \<^verbatim>\<open>lRange\<close>, \<^verbatim>\<open>connect\<close>).\<close>

definition client_read ::
  "'a redis_adapter_scheme \<Rightarrow> 'a redis_adapter_scheme + 'a redis_adapter_scheme" where
  "client_read = command (\<lambda>a. a)"

definition isReady :: "'a redis_adapter_scheme \<Rightarrow> bool" where
  "isReady a = isConnected a"

definition publish :: "string \<Rightarrow> message \<Rightarrow> 'a redis_adapter_scheme \<Rightarrow> bool \<times> 'a redis_adapter_scheme" where
  "publish channel msg a =
     (if \<not> isConnected a then (False, a)
      else case client_publish channel msg a of
             Inr a' \<Rightarrow> (True, a')
           | Inl a' \<Rightarrow> (False, a'))"

definition subscribe :: "string \<Rightarrow> handler \<Rightarrow> 'a redis_adapter_scheme \<Rightarrow> bool \<times> 'a redis_adapter_scheme" where
  "subscribe channel handler a =
     (if \<not> isConnected a then (False, a)
      else case client_subscribe channel handler (a\<lparr>handlers := (handlers a)(channel \<mapsto> handler)\<rparr>) of
             Inr a' \<Rightarrow> (True, a')
           | Inl a' \<Rightarrow> (False, a'))"



text \<open>\<^verbatim>\<open>set(key, value, ttl = null)\<close>: a time to live of \<^verbatim>\<open>null\<close> or 0 is falsy.\<close>

definition set_key :: "string \<Rightarrow> prim \<Rightarrow> nat option \<Rightarrow> 'a redis_adapter_scheme \<Rightarrow> bool \<times> 'a redis_adapter_scheme" where
  "set_key key v ttl a =
     (if \<not> isConnected a then (False, a)
      else case (if ttl \<noteq> None \<and> ttl \<noteq> Some 0 then client_set key v ttl a else client_set key v None a) of
             Inr a' \<Rightarrow> (True, a')
           | Inl a' \<Rightarrow> (False, a'))"

text \<open>\<^verbatim>\<open>get(key)\<close>: \<open>None\<close> is the source's \<^verbatim>\<open>null\<close>.\<close>

definition get_key :: "string \<Rightarrow> 'a redis_adapter_scheme \<Rightarrow> prim option \<times> 'a redis_adapter_scheme" where
  "get_key key a =
     (if \<not> isConnected a then (None, a)
      else case client_read a of
             Inr a' \<Rightarrow> (map_option fst (string_store a' key), a')
           | Inl a' \<Rightarrow> (None, a'))"

definition delete_key :: "string \<Rightarrow> 'a redis_adapter_scheme \<Rightarrow> bool \<times> 'a redis_adapter_scheme" where
  "delete_key key a =
     (if \<not> isConnected a then (False, a)
      else case client_del key a of
             Inr a' \<Rightarrow> (True, a')
           | Inl a' \<Rightarrow> (False, a'))"

definition listPush :: "string \<Rightarrow> action \<Rightarrow> 'a redis_adapter_scheme \<Rightarrow> bool \<times> 'a redis_adapter_scheme" where
  "listPush key v a =
     (if \<not> isConnected a then (False, a)
      else case client_rPush key [v] a of
             Inr a' \<Rightarrow> (True, a')
           | Inl a' \<Rightarrow> (False, a'))"

definition listGetAll :: "string \<Rightarrow> 'a redis_adapter_scheme \<Rightarrow> action list \<times> 'a redis_adapter_scheme" where
  "listGetAll key a =
     (if \<not> isConnected a then ([], a)
      else case client_read a of
             Inr a' \<Rightarrow> (list_store a' key, a')
           | Inl a' \<Rightarrow> ([], a'))"

text \<open>\<^verbatim>\<open>listReplace\<close>: delete, then push all items when there is any; not atomic.\<close>

definition listReplace :: "string \<Rightarrow> action list \<Rightarrow> 'a redis_adapter_scheme \<Rightarrow> bool \<times> 'a redis_adapter_scheme" where
  "listReplace key items a =
     (if \<not> isConnected a then (False, a)
      else case client_del key a of
             Inl a' \<Rightarrow> (False, a')
           | Inr a' \<Rightarrow>
               if length items > 0 then
                 (case client_rPush key items a' of
                    Inr a'' \<Rightarrow> (True, a'')
                  | Inl a'' \<Rightarrow> (False, a''))
               else (True, a'))"


section \<open>RedisWhiteboardService\<close>

text \<open>
  The service object extends the adapter it is bound to (a module-level singleton in
  the source): \<open>localCache\<close>, \<open>nodeId\<close> and \<open>eventHandlers\<close> are its fields. The
  callbacks registered with \<^verbatim>\<open>onRemoteEvent\<close> are opaque; a call to one is recorded in
  \<open>notified\<close>. \<open>now\<close> is the clock read by \<^verbatim>\<open>Date.now()\<close>. \<open>localCache\<close> is a plain
  map from keys to arrays; a key set to \<^verbatim>\<open>undefined\<close> reads like a missing key.
  Arrays and objects are values here: the source never changes an action object, and
  wherever it changes an array in place it then stores that array under the same key.
\<close>

datatype callback = Callback nat

record service = redis_adapter +
  localCache :: "string \<rightharpoonup> action list"
  nodeId :: string
  eventHandlers :: "callback list"
  notified :: "(callback \<times> message) list"
  now :: nat


definition WHITEBOARD_PREFIX :: string where
  "WHITEBOARD_PREFIX = ''whiteboard:data:''"

definition UNDO_PREFIX :: string where
  "UNDO_PREFIX = ''whiteboard:undo:''"


definition handleRemoteEvent :: "message \<Rightarrow> service \<Rightarrow> service" where
  "handleRemoteEvent msg s =
     (if m_nodeId msg = Some (Str (nodeId s)) then s
      else
        let s1 =
          (if m_type msg = Some (Str ''update'') \<and> truthy (m_wid msg)
           then s\<lparr>localCache := (localCache s)(to_key (m_wid msg) := m_data msg)\<rparr>
           else if m_type msg = Some (Str ''clear'') \<and> truthy (m_wid msg)
           then s\<lparr>localCache := (localCache s)(to_key (m_wid msg) := None)\<rparr>
           else s)
        in s1\<lparr>notified := notified s1 @ map (\<lambda>h. (h, msg)) (eventHandlers s1)\<rparr>)"

definition onRemoteEvent :: "callback \<Rightarrow> service \<Rightarrow> service" where
  "onRemoteEvent h s = s\<lparr>eventHandlers := eventHandlers s @ [h]\<rparr>"

definition getUndoStack :: "string option \<Rightarrow> service \<Rightarrow> action list \<times> service" where
  "getUndoStack wid s =
     (if isReady s then listGetAll (UNDO_PREFIX @ to_key wid) s else ([], s))"

definition saveUndoStack :: "string option \<Rightarrow> action list \<Rightarrow> service \<Rightarrow> service" where
  "saveUndoStack wid stack s =
     (if isReady s then snd (listReplace (UNDO_PREFIX @ to_key wid) stack s) else s)"

text \<open>\<^verbatim>\<open>saveToDB\<close>: nothing is written when the cache holds no array for the board.\<close>

definition saveToDB :: "string option \<Rightarrow> service \<Rightarrow> service" where
  "saveToDB wid s =
     (if \<not> isReady s then s
      else case localCache s (to_key wid) of
             Some data \<Rightarrow> snd (listReplace (WHITEBOARD_PREFIX @ to_key wid) data s)
           | None \<Rightarrow> s)"


text \<open>
  \<^verbatim>\<open>loadStoredData\<close>: the cached array when there is one (an empty array is truthy);
  else the stored list when the adapter is ready and the list is not empty; else a new
  empty array. The array returned is the one the cache holds.
\<close>

definition loadStoredData :: "string option \<Rightarrow> service \<Rightarrow> action list \<times> service" where
  "loadStoredData wid s =
     (case localCache s (to_key wid) of
        Some cached \<Rightarrow> (cached, s)
      | None \<Rightarrow>
          if isReady s then
            (case listGetAll (WHITEBOARD_PREFIX @ to_key wid) s of
               (data, s1) \<Rightarrow>
                 if length data > 0
                 then (data, s1\<lparr>localCache := (localCache s1)(to_key wid \<mapsto> data)\<rparr>)
                 else ([], s1\<lparr>localCache := (localCache s1)(to_key wid \<mapsto> [])\<rparr>))
          else ([], s\<lparr>localCache := (localCache s)(to_key wid \<mapsto> [])\<rparr>))"





text \<open>\<^verbatim>\<open>xs.splice(j, 1)\<close>.\<close>

definition splice1 :: "nat \<Rightarrow> 'a list \<Rightarrow> 'a list" where
  "splice1 j xs = take j xs @ drop (Suc j) xs"

text \<open>
  The two loops that \<^verbatim>\<open>handleUndo\<close> and \<^verbatim>\<open>handleRedo\<close> share: \<^verbatim>\<open>handleUndo\<close> runs
  them with \<open>src\<close> the board and \<open>dst\<close> the undo stack, \<^verbatim>\<open>handleRedo\<close> with \<open>src\<close> the
  undo stack and \<open>dst\<close> the board. The first argument is the loop index plus one, so
  \<open>Suc j\<close> is the iteration at index \<open>j\<close> and 0 is the exit.

  Inner loop: from the end, every item of \<open>src\<close> with the given \<^verbatim>\<open>drawId\<close> and
  \<^verbatim>\<open>username\<close> is pushed onto \<open>dst\<close> and spliced out of \<open>src\<close>.
\<close>

fun move_group ::
  "nat \<Rightarrow> prim option \<Rightarrow> prim option \<Rightarrow> action list \<Rightarrow> action list \<Rightarrow> action list \<times> action list" where
  "move_group 0 drawId username src dst = (src, dst)"
| "move_group (Suc j) drawId username src dst =
     (if c_drawId (src ! j) = drawId \<and> c_username (src ! j) = username
      then move_group j drawId username (splice1 j src) (dst @ [src ! j])
      else move_group j drawId username src dst)"

text \<open>
  Outer loop: from the end, the first item owned by \<^verbatim>\<open>username\<close> gives the
  \<^verbatim>\<open>drawId\<close>; the inner loop runs once over the whole array, then \<^verbatim>\<open>break\<close>.
\<close>

fun move_last_group ::
  "nat \<Rightarrow> prim option \<Rightarrow> action list \<Rightarrow> action list \<Rightarrow> action list \<times> action list" where
  "move_last_group 0 username src dst = (src, dst)"
| "move_last_group (Suc i) username src dst =
     (if c_username (src ! i) = username
      then move_group (length src) (c_drawId (src ! i)) username src dst
      else move_last_group i username src dst)"

text \<open>\<^verbatim>\<open>if (undoStack.length > 1000) undoStack.splice(0, undoStack.length - 1000)\<close>.\<close>

definition limit_undo_stack :: "action list \<Rightarrow> action list" where
  "limit_undo_stack undoStack =
     (if length undoStack > 1000 then drop (length undoStack - 1000) undoStack else undoStack)"

definition handleUndo :: "string option \<Rightarrow> prim option \<Rightarrow> service \<Rightarrow> service" where
  "handleUndo wid username s =
     (case loadStoredData wid s of
        (savedBoard, s1) \<Rightarrow>
          (case getUndoStack wid s1 of
             (undoStack, s2) \<Rightarrow>
               (case move_last_group (length savedBoard) username savedBoard undoStack of
                  (savedBoard', undoStack') \<Rightarrow>
                    saveToDB wid
                      (saveUndoStack wid (limit_undo_stack undoStack')
                         (s2\<lparr>localCache := (localCache s2)(to_key wid \<mapsto> savedBoard')\<rparr>)))))"

definition handleRedo :: "string option \<Rightarrow> prim option \<Rightarrow> service \<Rightarrow> service" where
  "handleRedo wid username s =
     (case loadStoredData wid s of
        (savedBoard, s1) \<Rightarrow>
          (case getUndoStack wid s1 of
             (undoStack, s2) \<Rightarrow>
               (case move_last_group (length undoStack) username undoStack savedBoard of
                  (undoStack', savedBoard') \<Rightarrow>
                    saveToDB wid
                      (saveUndoStack wid undoStack'
                         (s2\<lparr>localCache := (localCache s2)(to_key wid \<mapsto> savedBoard')\<rparr>)))))"


text \<open>
  The two constructors: a service with an empty cache and no callbacks, bound to an
  adapter that is not connected, in front of a server that holds nothing.
\<close>

definition new_service :: "string \<Rightarrow> service" where
  "new_service node =
     \<lparr>isConnected = False, handlers = Map.empty, string_store = Map.empty,
      list_store = (\<lambda>key. []), published = [], listeners = [], invoked = [], faults = [],
      localCache = Map.empty, nodeId = node, eventHandlers = [], notified = [], now = 0\<rparr>"

section \<open>Notions of the specification\<close>

text \<open>
  The board's action list as the service sees it (what \<^verbatim>\<open>loadStoredData\<close> returns).
\<close>

definition board :: "string option \<Rightarrow> service \<Rightarrow> action list" where
  "board wid s = fst (loadStoredData wid s)"

text \<open>An action matches the pair of a \<^verbatim>\<open>drawId\<close> and a \<^verbatim>\<open>username\<close>.\<close>

definition in_group :: "prim option \<Rightarrow> prim option \<Rightarrow> action \<Rightarrow> bool" where
  "in_group drawId user a = (c_drawId a = drawId \<and> c_username a = user)"

text \<open>
  The most recent action of a list owned by a user, and the group of that action: the
  actions matching its \<^verbatim>\<open>drawId\<close> and the user.
\<close>

definition last_owned :: "prim option \<Rightarrow> action list \<Rightarrow> action option" where
  "last_owned user xs =
     (case filter (\<lambda>a. c_username a = user) xs of [] \<Rightarrow> None | y # ys \<Rightarrow> Some (last (y # ys)))"

definition in_last_group :: "prim option \<Rightarrow> action list \<Rightarrow> action \<Rightarrow> bool" where
  "in_last_group user xs a =
     (case last_owned user xs of
        None \<Rightarrow> False
      | Some b \<Rightarrow> c_drawId a = c_drawId b \<and> c_username a = user)"





section \<open>Sample data\<close>

text \<open>
  Sample contents for board \<^verbatim>\<open>"b1"\<close>: a pen stroke as a client sends it and as the
  board stores it (without the board id), and a textbox text.
\<close>

definition pen :: "string \<Rightarrow> int \<Rightarrow> action" where
  "pen user n =
     \<lparr>c_t = Some (Str ''pen''), c_wid = Some ''b1'', c_username = Some (Str user),
      c_drawId = Some (Num n), c_d = Some [Num 0, Num 0, Num 5, Num 5], c_rest = []\<rparr>"

definition stroke :: "string \<Rightarrow> int \<Rightarrow> action" where
  "stroke user n =
     \<lparr>c_t = Some (Str ''pen''), c_wid = None, c_username = Some (Str user),
      c_drawId = Some (Num n), c_d = Some [Num 0, Num 0, Num 5, Num 5], c_rest = []\<rparr>"


text \<open>An update event that node \<^verbatim>\<open>"node-1"\<close> published itself.\<close>

definition own_update :: message where
  "own_update =
     \<lparr>m_type = Some (Str ''update''), m_wid = Some ''b1'', m_tool = Some (Str ''pen''),
      m_data = Some [], m_content = Some (pen ''u1'' 1),
      m_nodeId = Some (Str ''node-1''), m_timestamp = Some 0\<rparr>"

text \<open>
  A node whose adapter never connected, holding two strokes of two users for board
  \<^verbatim>\<open>"b1"\<close>.
\<close>

definition offline_node :: service where
  "offline_node =
     (new_service ''node-1'')\<lparr>localCache := [''b1'' \<mapsto> [stroke ''u1'' 1, stroke ''u2'' 2]]\<rparr>"













section \<open>The adapter and the service, operation by operation\<close>

subsection \<open>The two loops\<close>

text \<open>
  Started at the length of the array, the inner loop reads only indices inside the
  array (after a splice at \<open>j\<close> the next index is \<open>j - 1\<close>), and it moves exactly the
  matching items: what stays is the filter of the source, what arrives is the matching
  items in reverse order.
\<close>

lemma take_Suc_snoc: "j < length xs \<Longrightarrow> take (Suc j) xs = take j xs @ [xs ! j]"
  by (simp add: take_Suc_conv_app_nth)

lemma move_group_eq:
  "n \<le> length src \<Longrightarrow>
   move_group n drawId user src dst =
     (filter (\<lambda>a. \<not> in_group drawId user a) (take n src) @ drop n src,
      dst @ rev (filter (in_group drawId user) (take n src)))"
proof (induction n arbitrary: src dst)
  case 0
  then show ?case by simp
next
  case (Suc j)
  then have j: "j < length src" by simp
  have len: "j \<le> length (splice1 j src)" using j by (simp add: splice1_def)
  have tk: "take j (splice1 j src) = take j src" using j by (simp add: splice1_def)
  have dr: "drop j (splice1 j src) = drop (Suc j) src" using j by (simp add: splice1_def)
  show ?case
  proof (cases "in_group drawId user (src ! j)")
    case True
    then show ?thesis
      using Suc.IH [OF len, of "dst @ [src ! j]"] j
      by (simp add: tk dr take_Suc_snoc in_group_def)
  next
    case False
    have "drop j src = src ! j # drop (Suc j) src" using j by (simp add: Cons_nth_drop_Suc)
    with False show ?thesis
      using Suc.IH [of src dst] j
      by (auto simp add: take_Suc_snoc in_group_def)
  qed
qed

lemma move_group_all:
  "move_group (length src) drawId user src dst =
     (filter (\<lambda>a. \<not> in_group drawId user a) src, dst @ rev (filter (in_group drawId user) src))"
  by (simp add: move_group_eq)

lemma move_last_group_none:
  "n \<le> length src \<Longrightarrow> \<forall>a \<in> set (take n src). c_username a \<noteq> user \<Longrightarrow>
   move_last_group n user src dst = (src, dst)"
proof (induction n)
  case 0
  then show ?case by simp
next
  case (Suc i)
  then have i: "i < length src" by simp
  with Suc show ?case by (simp add: take_Suc_snoc)
qed

lemma move_last_group_some:
  "n \<le> length src \<Longrightarrow> \<exists>a \<in> set (take n src). c_username a = user \<Longrightarrow>
   move_last_group n user src dst =
     move_group (length src) (c_drawId (last (filter (\<lambda>a. c_username a = user) (take n src)))) user src dst"
proof (induction n)
  case 0
  then show ?case by simp
next
  case (Suc i)
  then have i: "i < length src" by simp
  show ?case
  proof (cases "c_username (src ! i) = user")
    case True
    then show ?thesis using i by (simp add: take_Suc_snoc)
  next
    case False
    with Suc.prems i have "\<exists>a \<in> set (take i src). c_username a = user"
      by (auto simp add: take_Suc_snoc)
    with Suc.IH i False show ?thesis by (simp add: take_Suc_snoc)
  qed
qed

subsection \<open>The adapter when its commands succeed, and what it never touches\<close>







lemma listGetAll_frame:
  "localCache (snd (listGetAll key s)) = localCache s"
  "isConnected (snd (listGetAll key s)) = isConnected s"
  "list_store (snd (listGetAll key s)) = list_store s"
  "published (snd (listGetAll key s)) = published s"
  by (auto simp add: listGetAll_def client_read_def command_def split: list.splits sum.splits)

lemma listReplace_frame:
  "localCache (snd (listReplace key items s)) = localCache s"
  "isConnected (snd (listReplace key items s)) = isConnected s"
  "published (snd (listReplace key items s)) = published s"
  by (auto simp add: listReplace_def client_del_def client_rPush_def command_def split: list.splits sum.splits)



subsection \<open>The service\<close>

lemma prefixes_differ [simp]:
  "WHITEBOARD_PREFIX @ k \<noteq> UNDO_PREFIX @ k'"
  "UNDO_PREFIX @ k' \<noteq> WHITEBOARD_PREFIX @ k"
  "WHITEBOARD_PREFIX \<noteq> UNDO_PREFIX"
  "UNDO_PREFIX \<noteq> WHITEBOARD_PREFIX"
  by (simp_all add: WHITEBOARD_PREFIX_def UNDO_PREFIX_def)

lemma loadStoredData_cache:
  "localCache (snd (loadStoredData wid s)) = (localCache s)(to_key wid \<mapsto> fst (loadStoredData wid s))"
  by (auto simp add: loadStoredData_def isReady_def listGetAll_frame case_prod_beta fun_upd_idem split: option.splits)

lemma loadStoredData_frame:
  "isConnected (snd (loadStoredData wid s)) = isConnected s"
  "list_store (snd (loadStoredData wid s)) = list_store s"
  "published (snd (loadStoredData wid s)) = published s"
  by (simp_all add: loadStoredData_def isReady_def listGetAll_frame case_prod_beta split: option.splits)


lemma loadStoredData_not_ready:
  "\<not> isConnected s \<Longrightarrow>
   loadStoredData wid s =
     (case localCache s (to_key wid) of
        Some cached \<Rightarrow> (cached, s)
      | None \<Rightarrow> ([], s\<lparr>localCache := (localCache s)(to_key wid \<mapsto> [])\<rparr>))"
  by (auto simp add: loadStoredData_def isReady_def split: option.splits)

lemma loadStoredData_cached:
  "localCache s (to_key wid) = Some cached \<Longrightarrow> loadStoredData wid s = (cached, s)"
  by (simp add: loadStoredData_def)

lemma last_owned_None: "last_owned user xs = None \<longleftrightarrow> (\<forall>a \<in> set xs. c_username a \<noteq> user)"
proof -
  have "last_owned user xs = None \<longleftrightarrow> filter (\<lambda>a. c_username a = user) xs = []"
    by (simp add: last_owned_def split: list.splits)
  then show ?thesis by (simp add: filter_empty_conv)
qed

lemma move_last_group_eq:
  "move_last_group (length src) user src dst =
     (filter (\<lambda>a. \<not> in_last_group user src a) src,
      dst @ rev (filter (in_last_group user src) src))"
proof (cases "last_owned user src")
  case None
  then have no: "\<forall>a \<in> set src. c_username a \<noteq> user" by (simp add: last_owned_None)
  then have "move_last_group (length src) user src dst = (src, dst)"
    by (simp add: move_last_group_none)
  moreover have "in_last_group user src = (\<lambda>a. False)"
    using None by (simp add: in_last_group_def fun_eq_iff)
  ultimately show ?thesis by simp
next
  case (Some b)
  then have ex: "\<exists>a \<in> set src. c_username a = user"
    using last_owned_None [of user src] by auto
  have b: "b = last (filter (\<lambda>a. c_username a = user) src)"
    using Some by (auto simp add: last_owned_def split: list.splits)
  have "in_last_group user src = in_group (c_drawId b) user"
    using Some by (simp add: in_last_group_def in_group_def fun_eq_iff)
  then show ?thesis
    using move_last_group_some [of "length src" src user dst] ex b
    by (simp add: move_group_all)
qed

lemma getUndoStack_frame:
  "localCache (snd (getUndoStack wid s)) = localCache s"
  "isConnected (snd (getUndoStack wid s)) = isConnected s"
  "list_store (snd (getUndoStack wid s)) = list_store s"
  "published (snd (getUndoStack wid s)) = published s"
  by (simp_all add: getUndoStack_def listGetAll_frame)

lemma saveUndoStack_frame:
  "localCache (saveUndoStack wid st s) = localCache s"
  "isConnected (saveUndoStack wid st s) = isConnected s"
  "published (saveUndoStack wid st s) = published s"
  by (simp_all add: saveUndoStack_def listReplace_frame)

lemma saveToDB_frame:
  "localCache (saveToDB wid s) = localCache s"
  "isConnected (saveToDB wid s) = isConnected s"
  "published (saveToDB wid s) = published s"
  by (simp_all add: saveToDB_def listReplace_frame split: option.splits)

lemma handleUndo_cache:
  "localCache (handleUndo wid user s) =
     (localCache s)(to_key wid \<mapsto> filter (\<lambda>a. \<not> in_last_group user (board wid s) a) (board wid s))"
  by (simp add: handleUndo_def case_prod_beta saveToDB_frame saveUndoStack_frame getUndoStack_frame
      loadStoredData_cache move_last_group_eq board_def)

lemma handleUndo_frame:
  "isConnected (handleUndo wid user s) = isConnected s"
  "published (handleUndo wid user s) = published s"
  by (simp_all add: handleUndo_def case_prod_beta saveToDB_frame saveUndoStack_frame getUndoStack_frame
      loadStoredData_frame)


lemma getUndoStack_not_ready:
  "\<not> isConnected s \<Longrightarrow> getUndoStack wid s = ([], s)"
  by (simp add: getUndoStack_def isReady_def)



lemma saveUndoStack_not_ready: "\<not> isConnected s \<Longrightarrow> saveUndoStack wid st s = s"
  by (simp add: saveUndoStack_def isReady_def)

lemma saveToDB_not_ready: "\<not> isConnected s \<Longrightarrow> saveToDB wid s = s"
  by (simp add: saveToDB_def isReady_def)



lemma handleRedo_not_ready:
  assumes "\<not> isConnected s"
  shows "handleRedo wid user s = s\<lparr>localCache := (localCache s)(to_key wid \<mapsto> board wid s)\<rparr>"
  using assms
  by (simp add: handleRedo_def board_def loadStoredData_not_ready getUndoStack_not_ready
      saveUndoStack_not_ready saveToDB_not_ready split: option.splits)

lemma handleUndo_not_ready:
  assumes "\<not> isConnected s"
  shows "handleUndo wid user s =
     s\<lparr>localCache := (localCache s)(to_key wid \<mapsto> filter (\<lambda>a. \<not> in_last_group user (board wid s) a) (board wid s))\<rparr>"
  using assms
  by (simp add: handleUndo_def board_def loadStoredData_not_ready getUndoStack_not_ready
      saveUndoStack_not_ready saveToDB_not_ready move_last_group_eq split: option.splits)







lemma offline_board: "board (Some ''b1'') offline_node = [stroke ''u1'' 1, stroke ''u2'' 2]"
  by (simp add: board_def loadStoredData_def to_key_def offline_node_def new_service_def)

lemma in_last_group_last_owned:
  "last_owned user xs = Some b \<Longrightarrow> b \<in> set xs \<and> in_last_group user xs b"
proof -
  assume b: "last_owned user xs = Some b"
  then have ne: "filter (\<lambda>a. c_username a = user) xs \<noteq> []"
    and l: "b = last (filter (\<lambda>a. c_username a = user) xs)"
    by (auto simp add: last_owned_def split: list.splits)
  from ne l have "b \<in> set (filter (\<lambda>a. c_username a = user) xs)"
    using last_in_set by blast
  then show ?thesis using b by (simp add: in_last_group_def)
qed

lemma last_owned_Some:
  "\<exists>a \<in> set xs. c_username a = user \<Longrightarrow> \<exists>b. last_owned user xs = Some b"
  using last_owned_None [of user xs] by (cases "last_owned user xs") auto
































subsection \<open>Evaluation on the sample nodes\<close>



section \<open>Self-suppression\<close>

text \<open>
  C1. An event whose \<^verbatim>\<open>nodeId\<close> is the receiving node's own id is ignored entirely:
  \<^verbatim>\<open>handleRemoteEvent\<close> returns the state it was given, so \<open>localCache\<close> is unchanged for
  every board and no registered callback is called (the calls are the field \<open>notified\<close>
  of the state).
\<close>

theorem handleRemoteEvent_own_event_ignored:
  "m_nodeId msg = Some (Str (nodeId s)) \<Longrightarrow> handleRemoteEvent msg s = s"
  by (simp add: handleRemoteEvent_def)

theorem handleRemoteEvent_own_event_ignored_witness:
  "m_nodeId own_update = Some (Str (nodeId (new_service ''node-1''))) \<and>
   handleRemoteEvent own_update (new_service ''node-1'') = new_service ''node-1''"
  using handleRemoteEvent_own_event_ignored [of own_update "new_service ''node-1''"]
  by (simp add: own_update_def new_service_def)

section \<open>The events of a mutation\<close>






section \<open>Undo\<close>






section \<open>Undo followed by redo\<close>







section \<open>The bound on the undo stack\<close>



section \<open>Textbox text\<close>




section \<open>The adapter when it is not ready\<close>

text \<open>
  C7. While the readiness flag is false, each of \<^verbatim>\<open>publish\<close>, \<^verbatim>\<open>subscribe\<close>, \<^verbatim>\<open>get\<close>,
  \<^verbatim>\<open>set\<close>, \<^verbatim>\<open>delete\<close>, \<^verbatim>\<open>listPush\<close>, \<^verbatim>\<open>listGetAll\<close> and \<^verbatim>\<open>listReplace\<close> returns the
  failure value of its kind (\<^verbatim>\<open>false\<close>, \<^verbatim>\<open>null\<close> for \<^verbatim>\<open>get\<close>, the empty array for
  \<^verbatim>\<open>listGetAll\<close>) and leaves the adapter, its clients and the server as they were; no
  client command is issued, so nothing can throw.
\<close>

theorem not_ready_sentinels:
  "\<not> isReady a \<Longrightarrow>
     publish channel msg a = (False, a) \<and>
     subscribe channel h a = (False, a) \<and>
     get_key key a = (None, a) \<and>
     set_key key v ttl a = (False, a) \<and>
     delete_key key a = (False, a) \<and>
     listPush key item a = (False, a) \<and>
     listGetAll key a = ([], a) \<and>
     listReplace key items a = (False, a)"
  by (simp add: isReady_def publish_def subscribe_def get_key_def set_key_def delete_key_def
      listPush_def listGetAll_def listReplace_def)

theorem not_ready_sentinels_witness:
  "\<not> isReady (new_service ''node-1'') \<and>
   publish ''whiteboard:events'' own_update (new_service ''node-1'') = (False, new_service ''node-1'') \<and>
   subscribe ''whiteboard:events'' (Handler 0) (new_service ''node-1'') = (False, new_service ''node-1'') \<and>
   get_key ''k'' (new_service ''node-1'') = (None, new_service ''node-1'') \<and>
   set_key ''k'' (Num 1) None (new_service ''node-1'') = (False, new_service ''node-1'') \<and>
   delete_key ''k'' (new_service ''node-1'') = (False, new_service ''node-1'') \<and>
   listPush ''k'' (stroke ''u1'' 1) (new_service ''node-1'') = (False, new_service ''node-1'') \<and>
   listGetAll ''k'' (new_service ''node-1'') = ([], new_service ''node-1'') \<and>
   listReplace ''k'' [stroke ''u1'' 1] (new_service ''node-1'') = (False, new_service ''node-1'')"
proof -
  have nr: "\<not> isReady (new_service ''node-1'')"
    by (simp add: isReady_def new_service_def)
  show ?thesis
    using nr not_ready_sentinels [OF nr, of "''whiteboard:events''" own_update "Handler 0" "''k''" "Num 1" None
        "stroke ''u1'' 1" "[stroke ''u1'' 1]"]
    by simp
qed

section \<open>Subscribing twice to one channel\<close>




section \<open>Clear\<close>






section \<open>Undo and redo without a store\<close>

text \<open>
  C10. When the adapter is not ready and the board has an action owned by the user,
  \<^verbatim>\<open>handleUndo\<close> removes the group of the user's most recent action from
  \<open>localCache\<close> and changes nothing else: the undo stack is written nowhere
  (\<^verbatim>\<open>saveUndoStack\<close> does nothing, \<^verbatim>\<open>getUndoStack\<close> returns the empty array), and
  \<^verbatim>\<open>handleRedo\<close> afterwards leaves the state, so the action list, as it is: the removed
  actions do not come back.
\<close>

theorem undo_without_store_is_lost:
  assumes "\<not> isReady s" and "\<exists>a \<in> set (board wid s). c_username a = user"
  shows "\<exists>b. last_owned user (board wid s) = Some b \<and> in_last_group user (board wid s) b \<and>
     handleUndo wid user s =
       s\<lparr>localCache := (localCache s)(to_key wid \<mapsto>
            filter (\<lambda>a. \<not> in_last_group user (board wid s) a) (board wid s))\<rparr> \<and>
     b \<notin> set (board wid (handleUndo wid user s)) \<and>
     saveUndoStack wid stack (handleUndo wid user s) = handleUndo wid user s \<and>
     getUndoStack wid (handleUndo wid user s) = ([], handleUndo wid user s) \<and>
     handleRedo wid user (handleUndo wid user s) = handleUndo wid user s"
proof -
  from assms(2) obtain b where b: "last_owned user (board wid s) = Some b"
    using last_owned_Some by blast
  then have g: "in_last_group user (board wid s) b"
    by (simp add: in_last_group_last_owned)
  let ?s' = "handleUndo wid user s"
  have nc: "\<not> isConnected s" using assms(1) by (simp add: isReady_def)
  have u: "?s' = s\<lparr>localCache := (localCache s)(to_key wid \<mapsto>
            filter (\<lambda>a. \<not> in_last_group user (board wid s) a) (board wid s))\<rparr>"
    using nc by (rule handleUndo_not_ready)
  have nc': "\<not> isConnected ?s'" using nc by (simp add: handleUndo_frame)
  have bd: "board wid ?s' = filter (\<lambda>a. \<not> in_last_group user (board wid s) a) (board wid s)"
    by (simp add: board_def loadStoredData_cached handleUndo_cache)
  have r: "handleRedo wid user ?s' = ?s'"
    using handleRedo_not_ready [OF nc', of wid user]
    by (simp add: bd) (simp add: u)
  show ?thesis
    using b g u r nc' bd by (simp add: saveUndoStack_not_ready getUndoStack_not_ready)
qed

theorem undo_without_store_is_lost_witness:
  "\<not> isReady offline_node \<and>
   (\<exists>a \<in> set (board (Some ''b1'') offline_node). c_username a = Some (Str ''u1'')) \<and>
   localCache (handleUndo (Some ''b1'') (Some (Str ''u1'')) offline_node) ''b1'' = Some [stroke ''u2'' 2] \<and>
   getUndoStack (Some ''b1'') (handleUndo (Some ''b1'') (Some (Str ''u1'')) offline_node)
     = ([], handleUndo (Some ''b1'') (Some (Str ''u1'')) offline_node) \<and>
   handleRedo (Some ''b1'') (Some (Str ''u1'')) (handleUndo (Some ''b1'') (Some (Str ''u1'')) offline_node)
     = handleUndo (Some ''b1'') (Some (Str ''u1'')) offline_node"
proof -
  have nr: "\<not> isReady offline_node"
    by (simp add: isReady_def offline_node_def new_service_def)
  have own: "\<exists>a \<in> set (board (Some ''b1'') offline_node). c_username a = Some (Str ''u1'')"
    by (simp add: offline_board stroke_def)
  have grp: "filter (\<lambda>a. \<not> in_last_group (Some (Str ''u1'')) [stroke ''u1'' 1, stroke ''u2'' 2] a)
      [stroke ''u1'' 1, stroke ''u2'' 2] = [stroke ''u2'' 2]"
    by (simp add: in_last_group_def last_owned_def stroke_def)
  from undo_without_store_is_lost [OF nr own, of "[]"] obtain b where
    u: "handleUndo (Some ''b1'') (Some (Str ''u1'')) offline_node =
          offline_node\<lparr>localCache := (localCache offline_node)(to_key (Some ''b1'') \<mapsto>
            filter (\<lambda>a. \<not> in_last_group (Some (Str ''u1'')) (board (Some ''b1'') offline_node) a)
              (board (Some ''b1'') offline_node))\<rparr>"
    and g: "getUndoStack (Some ''b1'') (handleUndo (Some ''b1'') (Some (Str ''u1'')) offline_node)
          = ([], handleUndo (Some ''b1'') (Some (Str ''u1'')) offline_node)"
    and r: "handleRedo (Some ''b1'') (Some (Str ''u1'')) (handleUndo (Some ''b1'') (Some (Str ''u1'')) offline_node)
          = handleUndo (Some ''b1'') (Some (Str ''u1'')) offline_node"
    by blast
  have c: "localCache (handleUndo (Some ''b1'') (Some (Str ''u1'')) offline_node) ''b1'' = Some [stroke ''u2'' 2]"
    by (subst u) (simp add: offline_board grp to_key_def del: filter.simps)
  show ?thesis using nr own c g r by blast
qed

end
